theory Spec2Isabelle
  imports Complex_Main "HOL-Library.Sublist"
begin

section \<open>Python values used by the pipeline\<close>

text \<open>
  Python integers are unbounded, so they are \<open>int\<close>; \<open>len\<close> of a string is
  \<open>int (length s)\<close>.  Python floats are only carried around or subtracted by this code;
  real numbers stand for them.
\<close>

text \<open>
  \<open>s[i:j]\<close> for a Python string: a negative bound counts from the end, and every bound
  is clamped to \<open>[0, len s]\<close>; an empty range gives the empty string.
\<close>

definition py_clamp :: "int \<Rightarrow> int \<Rightarrow> nat" where
  "py_clamp n k = (if k < 0 then nat (max (k + n) 0) else nat (min k n))"

definition py_slice :: "'a list \<Rightarrow> int \<Rightarrow> int \<Rightarrow> 'a list" where
  "py_slice s i j =
     (let n = int (length s); lo = py_clamp n i; hi = py_clamp n j
      in take (hi - lo) (drop lo s))"

section \<open>embedding\_service.py: the chunker\<close>

text \<open>
  A chunk is the dictionary literal built in \<open>chunk_document\<close>: fixed keys \<open>id\<close>,
  \<open>content\<close>, \<open>metadata\<close>, the last one again a dictionary with fixed keys.  A key
  that is also the name of a parameter of the source carries a prefix here (\<open>chunk_id\<close>,
  \<open>chunk_content\<close>, \<open>meta_document_name\<close>), so that parameters keep their names.
\<close>

record chunk_metadata =
  meta_document_name :: string
  chunk_index :: int
  original_length :: int
  start_pos :: int
  end_pos :: int

record chunk =
  chunk_id :: string
  chunk_content :: string
  metadata :: chunk_metadata

text \<open>
  The \<open>while\<close> loop of \<open>chunk_document\<close>.  The loop has no bound of its own (the cursor
  advances by \<open>step\<close>, which may be zero or negative), so it is a partial function:
  \<open>None\<close> means that the loop never leaves.  \<open>uuid4\<close> is a supply of identifiers:
  \<open>ids k\<close> is the value of the call made while \<open>k\<close> chunks have been appended.
\<close>

partial_function (option) chunk_loop ::
  "(nat \<Rightarrow> string) \<Rightarrow> string \<Rightarrow> string \<Rightarrow> int \<Rightarrow> int \<Rightarrow> int \<Rightarrow> chunk list \<Rightarrow> chunk list option"
where
  "chunk_loop ids document_name content chunk_size step i chunks =
     (if i < int (length content) then
        (let e = min (i + chunk_size) (int (length content));
             chunks' = chunks @
               [\<lparr>chunk_id = ids (length chunks),
                 chunk_content = py_slice content i e,
                 metadata = \<lparr>meta_document_name = document_name,
                             chunk_index = int (length chunks),
                             original_length = int (length content),
                             start_pos = i,
                             end_pos = e\<rparr>\<rparr>]
         in if e \<ge> int (length content) then Some chunks'
            else chunk_loop ids document_name content chunk_size step (i + step) chunks')
      else Some chunks)"

declare chunk_loop.simps [code]

definition chunk_document ::
  "(nat \<Rightarrow> string) \<Rightarrow> string \<Rightarrow> string \<Rightarrow> int \<Rightarrow> int \<Rightarrow> chunk list option"
where
  "chunk_document ids document_name content chunk_size overlap =
     (let step = chunk_size - overlap
      in chunk_loop ids document_name content chunk_size step 0 [])"

section \<open>Exceptions, outcomes and the outside world\<close>

text \<open>
  The exceptions that the code raises or lets through.  Each carries its message (\<open>str(e)\<close>);
  \<open>HTTPError\<close> is the one raised by \<open>raise_for_status\<close> and carries the status code of its
  response; \<open>RequestException\<close> stands for every other exception of \<open>requests\<close>
  (connection, timeout, exhausted retries, JSON decoding);
  \<open>OtherException\<close> is any other subclass of \<open>Exception\<close> raised by a library (the embedding
  model, the OpenAI client); \<open>BaseException\<close> is one that is not a subclass of \<open>Exception\<close>
  (\<open>KeyboardInterrupt\<close>, \<open>SystemExit\<close>, \<open>CancelledError\<close>).
\<close>

datatype exn =
    TypeError string
  | AttributeError string
  | KeyError string
  | IndexError string
  | RuntimeError string
  | HTTPError int string
  | RequestException string
  | OtherException string
  | BaseException string

fun is_Exception :: "exn \<Rightarrow> bool" where
  "is_Exception (BaseException _) = False"
| "is_Exception _ = True"

fun is_HTTPError :: "exn \<Rightarrow> bool" where
  "is_HTTPError (HTTPError _ _) = True"
| "is_HTTPError _ = False"

fun is_RequestException :: "exn \<Rightarrow> bool" where
  "is_RequestException (HTTPError _ _) = True"
| "is_RequestException (RequestException _) = True"
| "is_RequestException _ = False"

text \<open>What a call does: it returns a value, raises, or never comes back.\<close>

datatype 'a outcome = Returns 'a | Raises exn | Diverges

fun of_sum :: "exn + 'a \<Rightarrow> 'a outcome" where
  "of_sum (Inl e) = Raises e"
| "of_sum (Inr x) = Returns x"

fun of_option :: "'a option \<Rightarrow> 'a outcome" where
  "of_option None = Diverges"
| "of_option (Some x) = Returns x"

text \<open>
  Values that come from or go to the server as JSON, and the Python dictionaries and lists
  built for it.  A dictionary is an association list in insertion order.
\<close>

datatype json =
    JNull
  | JBool bool
  | JInt int
  | JFloat real
  | JStr string
  | JList "json list"
  | JObj "(string \<times> json) list"

text \<open>Python truth value of such a value (\<open>if x:\<close>).\<close>

fun truthy :: "json \<Rightarrow> bool" where
  "truthy JNull = False"
| "truthy (JBool b) = b"
| "truthy (JInt n) = (n \<noteq> 0)"
| "truthy (JFloat x) = (x \<noteq> 0)"
| "truthy (JStr s) = (s \<noteq> [])"
| "truthy (JList xs) = (xs \<noteq> [])"
| "truthy (JObj kvs) = (kvs \<noteq> [])"

text \<open>\<open>len(x)\<close>: defined on strings, lists and dictionaries, a \<open>TypeError\<close> otherwise.\<close>

fun py_len :: "json \<Rightarrow> int outcome" where
  "py_len (JStr s) = Returns (int (length s))"
| "py_len (JList xs) = Returns (int (length xs))"
| "py_len (JObj kvs) = Returns (int (length kvs))"
| "py_len _ = Raises (TypeError ''object has no len()'')"

text \<open>\<open>x.get(key, dflt)\<close>: a dictionary method, an \<open>AttributeError\<close> on anything else.\<close>

fun dict_get :: "json \<Rightarrow> string \<Rightarrow> json \<Rightarrow> json outcome" where
  "dict_get (JObj kvs) key dflt =
     Returns (case map_of kvs key of None \<Rightarrow> dflt | Some v \<Rightarrow> v)"
| "dict_get _ key dflt = Raises (AttributeError ''object has no attribute get'')"

text \<open>\<open>x[key]\<close> on a dictionary: a \<open>KeyError\<close> when the key is missing.\<close>

fun dict_item :: "json \<Rightarrow> string \<Rightarrow> json outcome" where
  "dict_item (JObj kvs) key =
     (case map_of kvs key of None \<Rightarrow> Raises (KeyError key) | Some v \<Rightarrow> Returns v)"
| "dict_item _ key = Raises (TypeError ''indices must be integers or slices, not str'')"

text \<open>
  An HTTP request as \<open>session.request\<close> receives it, and the response: its status code and
  its body, which is empty, a JSON document, or text that is not JSON.
\<close>

record request =
  req_method :: string
  req_url :: string
  req_json :: "json option"
  req_headers :: "(string \<times> string) list"
  req_timeout :: int

datatype body = NoText | JsonText json | BadText

record response =
  status_code :: int
  response_text :: body

text \<open>The request sent to the OpenAI client, and the message contents of the choices it returns.\<close>

record chat_request =
  chat_model :: string
  chat_messages :: "(string \<times> string) list"
  chat_max_tokens :: int
  chat_temperature :: real

type_synonym chat_response = "string option list"

text \<open>
  Everything the code does to the outside world is an event, and a run is the list of its
  events so far, oldest first.  Logging is left out.
\<close>

datatype event =
    HttpRequest request
  | Sleep int
  | TimeRead
  | EncodeText string
  | EncodeTexts "string list"
  | ChatCompletion chat_request

text \<open>
  The collaborators are oracles: what they answer may depend on everything that happened
  before.  \<open>session_send\<close> is \<open>requests.Session.request\<close> with its mounted retry adapter;
  \<open>model_encode_text\<close> and \<open>model_encode_texts\<close> are \<open>SentenceTransformer.encode\<close> followed by
  \<open>tolist\<close>; \<open>time_now\<close> is the reading of \<open>time.time()\<close>; \<open>uuid_supply\<close> gives the values
  of successive \<open>uuid4()\<close> calls; \<open>chat_create\<close> is \<open>chat.completions.create\<close>;
  \<open>py_repr\<close> is \<open>str\<close> of a list.
\<close>

record env =
  session_send :: "event list \<Rightarrow> request \<Rightarrow> exn + response"
  model_encode_text :: "event list \<Rightarrow> string \<Rightarrow> exn + real list"
  model_encode_texts :: "event list \<Rightarrow> string list \<Rightarrow> exn + real list list"
  model_dimension :: int
  time_now :: "event list \<Rightarrow> real"
  uuid_supply :: "event list \<Rightarrow> nat \<Rightarrow> string"
  chat_create :: "event list \<Rightarrow> chat_request \<Rightarrow> exn + chat_response"
  py_repr :: "json \<Rightarrow> string"

text \<open>
  A piece of code is an action: from the events so far to its outcome and the events after
  it.  \<open>seq\<close> is sequencing (a raise or a divergence ends the run), \<open>catch\<close> is
  \<open>try: ... except C: ...\<close> for the class of exceptions \<open>C\<close>.
\<close>

type_synonym 'a action = "event list \<Rightarrow> 'a outcome \<times> event list"

definition ret :: "'a \<Rightarrow> 'a action" where
  "ret x tr = (Returns x, tr)"

definition raise :: "exn \<Rightarrow> 'a action" where
  "raise e tr = (Raises e, tr)"

definition lift :: "'a outcome \<Rightarrow> 'a action" where
  "lift r tr = (r, tr)"

definition seq :: "'a action \<Rightarrow> ('a \<Rightarrow> 'b action) \<Rightarrow> 'b action" where
  "seq m f tr =
     (case m tr of
        (Returns x, tr') \<Rightarrow> f x tr'
      | (Raises e, tr') \<Rightarrow> (Raises e, tr')
      | (Diverges, tr') \<Rightarrow> (Diverges, tr'))"

definition catch :: "'a action \<Rightarrow> (exn \<Rightarrow> bool) \<Rightarrow> (exn \<Rightarrow> 'a action) \<Rightarrow> 'a action" where
  "catch m C handler tr =
     (case m tr of
        (Raises e, tr') \<Rightarrow> if C e then handler e tr' else (Raises e, tr')
      | r \<Rightarrow> r)"

definition session_request :: "env \<Rightarrow> request \<Rightarrow> response action" where
  "session_request env req tr = (of_sum (session_send env tr req), tr @ [HttpRequest req])"

definition time_time :: "env \<Rightarrow> real action" where
  "time_time env tr = (Returns (time_now env tr), tr @ [TimeRead])"

definition time_sleep :: "int \<Rightarrow> unit action" where
  "time_sleep seconds tr = (Returns (), tr @ [Sleep seconds])"

section \<open>config.py\<close>

text \<open>
  The settings that the pipeline reads, with the defaults of \<open>Settings\<close>.  The fields carry
  the prefix \<open>settings_\<close>.
\<close>

record settings =
  settings_endee_base_url :: string
  settings_endee_auth_token :: "string option"
  settings_endee_timeout :: int
  settings_embedding_model :: string
  settings_chunk_size :: int
  settings_chunk_overlap :: int
  settings_top_k_results :: int
  settings_openai_api_key :: "string option"
  settings_openai_model :: string
  settings_openai_temperature :: real
  settings_openai_max_tokens :: int

definition default_settings :: settings where
  "default_settings =
     \<lparr>settings_endee_base_url = ''http://localhost:8080'',
      settings_endee_auth_token = None,
      settings_endee_timeout = 30,
      settings_embedding_model = ''all-MiniLM-L6-v2'',
      settings_chunk_size = 512,
      settings_chunk_overlap = 50,
      settings_top_k_results = 5,
      settings_openai_api_key = None,
      settings_openai_model = ''gpt-3.5-turbo'',
      settings_openai_temperature = 7 / 10,
      settings_openai_max_tokens = 500\<rparr>"

section \<open>embedding\_service.py: the embedder\<close>

record embedding_service =
  embedder_model_name :: string
  embedder_dimension :: int

definition EmbeddingService_init :: "env \<Rightarrow> string \<Rightarrow> embedding_service" where
  "EmbeddingService_init env model_name =
     \<lparr>embedder_model_name = model_name, embedder_dimension = model_dimension env\<rparr>"

definition embed_text :: "env \<Rightarrow> string \<Rightarrow> real list action" where
  "embed_text env txt tr = (of_sum (model_encode_text env tr txt), tr @ [EncodeText txt])"

definition embed_texts :: "env \<Rightarrow> string list \<Rightarrow> real list list action" where
  "embed_texts env texts tr = (of_sum (model_encode_texts env tr texts), tr @ [EncodeTexts texts])"

record model_info =
  info_model :: string
  info_dimension :: int

definition get_model_info :: "embedding_service \<Rightarrow> model_info" where
  "get_model_info self = \<lparr>info_model = embedder_model_name self, info_dimension = embedder_dimension self\<rparr>"

text \<open>
  A call of \<open>chunk_document\<close> with keyword arguments.  Python binds each keyword to the
  parameter of that name (\<open>document_name\<close>, \<open>content\<close>, \<open>chunk_size\<close> with default 512,
  \<open>overlap\<close> with default 50; the method takes no \<open>**kwargs\<close>) and raises a \<open>TypeError\<close>
  for a keyword that names no parameter, before the body runs.  The one call site passes
  strings and integers where the body needs them; any other combination is given the
  \<open>TypeError\<close> that the body would run into.
\<close>

datatype arg = AStr string | AInt int

definition chunk_document_params :: "string list" where
  "chunk_document_params = [''document_name'', ''content'', ''chunk_size'', ''overlap'']"

definition call_chunk_document :: "(nat \<Rightarrow> string) \<Rightarrow> (string \<times> arg) list \<Rightarrow> chunk list outcome" where
  "call_chunk_document ids kwargs =
     (case filter (\<lambda>k. k \<notin> set chunk_document_params) (map fst kwargs) of
        k # _ \<Rightarrow>
          Raises (TypeError (''EmbeddingService.chunk_document() got an unexpected keyword argument ''
                    @ [CHR 0x27] @ k @ [CHR 0x27]))
      | [] \<Rightarrow>
          (case (map_of kwargs ''document_name'', map_of kwargs ''content'') of
             (Some (AStr document_name), Some (AStr content)) \<Rightarrow>
               (case (case map_of kwargs ''chunk_size'' of None \<Rightarrow> AInt 512 | Some v \<Rightarrow> v,
                      case map_of kwargs ''overlap'' of None \<Rightarrow> AInt 50 | Some v \<Rightarrow> v) of
                  (AInt chunk_size, AInt overlap) \<Rightarrow>
                    of_option (chunk_document ids document_name content chunk_size overlap)
                | _ \<Rightarrow> Raises (TypeError ''unsupported operand type(s)''))
           | (None, _) \<Rightarrow>
               Raises (TypeError ''EmbeddingService.chunk_document() missing required argument'')
           | (_, None) \<Rightarrow>
               Raises (TypeError ''EmbeddingService.chunk_document() missing required argument'')
           | _ \<Rightarrow> Raises (TypeError ''object of this type has no len()'')))"

section \<open>endee\_client.py\<close>

text \<open>
  The attributes of an \<open>EndeeClient\<close> carry the prefix \<open>client_\<close>.  The session with its
  retry adapter is the oracle \<open>session_send\<close>.
\<close>

record endee_client =
  client_base_url :: string
  client_auth_token :: "string option"
  client_timeout :: int
  client_headers :: "(string \<times> string) list"

definition rstrip :: "char \<Rightarrow> string \<Rightarrow> string" where
  "rstrip c s = rev (dropWhile (\<lambda>x. x = c) (rev s))"

definition EndeeClient_init :: "string \<Rightarrow> string option \<Rightarrow> int \<Rightarrow> endee_client" where
  "EndeeClient_init base_url auth_token timeout =
     \<lparr>client_base_url = rstrip (CHR ''/'') base_url,
      client_auth_token = auth_token,
      client_timeout = timeout,
      client_headers =
        [(''Content-Type'', ''application/json'')] @
        (case auth_token of
           None \<Rightarrow> []
         | Some token \<Rightarrow> if token = [] then [] else [(''Authorization'', token)])\<rparr>"

text \<open>
  \<open>_make_request\<close>: the request, then \<open>raise_for_status\<close> (an \<open>HTTPError\<close> for a status from
  400 to 599), then the body as JSON, or \<open>{}\<close> when the body is empty.  The handler logs and
  re-raises.
\<close>

definition make_request :: "env \<Rightarrow> endee_client \<Rightarrow> string \<Rightarrow> string \<Rightarrow> json option \<Rightarrow> json action" where
  "make_request env self method endpoint data =
     (let url = client_base_url self @ endpoint
      in catch
           (seq (session_request env
                   \<lparr>req_method = method, req_url = url, req_json = data,
                    req_headers = client_headers self, req_timeout = client_timeout self\<rparr>)
              (\<lambda>response.
                 if 400 \<le> status_code response \<and> status_code response < 600
                 then raise (HTTPError (status_code response) ''HTTP error'')
                 else (case response_text response of
                         NoText \<Rightarrow> ret (JObj [])
                       | JsonText j \<Rightarrow> ret j
                       | BadText \<Rightarrow> raise (RequestException ''JSONDecodeError''))))
           is_RequestException
           (\<lambda>e. raise e))"

text \<open>\<open>health_check\<close>: the bare \<open>except:\<close> catches every exception.\<close>

definition health_check :: "env \<Rightarrow> endee_client \<Rightarrow> bool action" where
  "health_check env self =
     catch
       (seq (session_request env
               \<lparr>req_method = ''GET'', req_url = client_base_url self @ ''/api/v1/health'',
                req_json = None, req_headers = client_headers self, req_timeout = 5\<rparr>)
          (\<lambda>response. ret (status_code response = 200)))
       (\<lambda>e. True)
       (\<lambda>e. ret False)"

definition create_index :: "env \<Rightarrow> endee_client \<Rightarrow> string \<Rightarrow> int \<Rightarrow> string \<Rightarrow> unit action" where
  "create_index env self name dimension metric =
     catch
       (seq (make_request env self ''POST'' ''/api/v1/index/create''
               (Some (JObj [(''name'', JStr name), (''dimension'', JInt dimension),
                            (''metric'', JStr metric)])))
          (\<lambda>_. ret ()))
       is_HTTPError
       (\<lambda>e. case e of
               HTTPError status _ \<Rightarrow> if status = 409 then ret () else raise e
             | _ \<Rightarrow> raise e)"

text \<open>
  \<open>insert\<close> (named \<open>endee_insert\<close> here): each vector is a dictionary, read at \<open>id\<close> and
  \<open>values\<close>, with \<open>metadata\<close> copied when present.
\<close>

definition insert_entry :: "json \<Rightarrow> json outcome" where
  "insert_entry v =
     (case dict_item v ''id'' of
        Raises e \<Rightarrow> Raises e
      | Diverges \<Rightarrow> Diverges
      | Returns i \<Rightarrow>
          (case dict_item v ''values'' of
             Raises e \<Rightarrow> Raises e
           | Diverges \<Rightarrow> Diverges
           | Returns vals \<Rightarrow>
               Returns (JObj ([(''id'', i), (''values'', vals)] @
                 (case v of
                    JObj kvs \<Rightarrow>
                      (case map_of kvs ''metadata'' of None \<Rightarrow> [] | Some m \<Rightarrow> [(''metadata'', m)])
                  | _ \<Rightarrow> [])))))"

fun insert_entries :: "json list \<Rightarrow> json list outcome" where
  "insert_entries [] = Returns []"
| "insert_entries (v # vectors) =
     (case insert_entry v of
        Raises e \<Rightarrow> Raises e
      | Diverges \<Rightarrow> Diverges
      | Returns entry \<Rightarrow>
          (case insert_entries vectors of
             Raises e \<Rightarrow> Raises e
           | Diverges \<Rightarrow> Diverges
           | Returns entries \<Rightarrow> Returns (entry # entries)))"

definition endee_insert :: "env \<Rightarrow> endee_client \<Rightarrow> string \<Rightarrow> json list \<Rightarrow> unit action" where
  "endee_insert env self index_name vectors =
     seq (lift (insert_entries vectors))
       (\<lambda>entries.
          seq (make_request env self ''POST'' (''/api/v1/index/'' @ index_name @ ''/insert'')
                 (Some (JObj [(''vectors'', JList entries)])))
            (\<lambda>_. ret ()))"

text \<open>\<open>search\<close> of the client (named \<open>endee_search\<close> here; \<open>filter'\<close> is its parameter \<open>filter_\<close>).\<close>

definition endee_search ::
  "env \<Rightarrow> endee_client \<Rightarrow> string \<Rightarrow> real list \<Rightarrow> int \<Rightarrow> json option \<Rightarrow> json action"
where
  "endee_search env self index_name query_vector k filter' =
     (let payload =
            [(''query'', JList (map JFloat query_vector)), (''k'', JInt k)] @
            (case filter' of
               None \<Rightarrow> []
             | Some f \<Rightarrow> if truthy f then [(''filter'', f)] else [])
      in seq (make_request env self ''POST'' (''/api/v1/index/'' @ index_name @ ''/search'')
                (Some (JObj payload)))
           (\<lambda>response. lift (dict_get response ''results'' (JList []))))"

section \<open>rag\_service.py\<close>

text \<open>
  The attributes of a \<open>RAGService\<close> carry the prefix \<open>service_\<close>.  \<open>service_openai_client\<close>
  is \<open>None\<close> or the client built from the API key.  The methods are coroutines that never
  suspend on anything but each other, so they are modelled as plain calls.
\<close>

record rag_service =
  service_index_name :: string
  service_embedding_service :: embedding_service
  service_endee_client :: endee_client
  service_openai_client :: "string option"

definition RAGService_init :: "env \<Rightarrow> settings \<Rightarrow> string \<Rightarrow> string option \<Rightarrow> rag_service" where
  "RAGService_init env st index_name embedding_model =
     \<lparr>service_index_name = index_name,
      service_embedding_service =
        EmbeddingService_init env
          (case embedding_model of
             None \<Rightarrow> settings_embedding_model st
           | Some m \<Rightarrow> if m = [] then settings_embedding_model st else m),
      service_endee_client =
        EndeeClient_init (settings_endee_base_url st) (settings_endee_auth_token st)
          (settings_endee_timeout st),
      service_openai_client =
        (case settings_openai_api_key st of
           None \<Rightarrow> None
         | Some key \<Rightarrow> if key = [] then None else Some key)\<rparr>"

text \<open>
  The \<open>for attempt in range(max_retries)\<close> loop of \<open>initialize\<close>, over the attempts that
  are left; the empty list is the \<open>else\<close> branch of the loop.
\<close>

primrec wait_for_endee :: "env \<Rightarrow> endee_client \<Rightarrow> nat list \<Rightarrow> unit action" where
  "wait_for_endee env client [] = raise (RuntimeError ''Endee server is not responding'')"
| "wait_for_endee env client (attempt # attempts) =
     seq (health_check env client)
       (\<lambda>healthy.
          if healthy then ret ()
          else seq (time_sleep 1) (\<lambda>_. wait_for_endee env client attempts))"

definition initialize :: "env \<Rightarrow> rag_service \<Rightarrow> unit action" where
  "initialize env self =
     (let max_retries = 10
      in seq (wait_for_endee env (service_endee_client self) [0 ..< max_retries])
           (\<lambda>_. let model_info = get_model_info (service_embedding_service self)
                in create_index env (service_endee_client self) (service_index_name self)
                     (info_dimension model_info) ''cosine''))"

text \<open>The dictionary returned by \<open>ingest_document\<close>.\<close>

record ingestion_result =
  ingested_document_name :: string
  chunks_added :: int
  total_content_length :: int

definition metadata_items :: "chunk_metadata \<Rightarrow> (string \<times> json) list" where
  "metadata_items m =
     [(''document_name'', JStr (meta_document_name m)),
      (''chunk_index'', JInt (chunk_index m)),
      (''original_length'', JInt (original_length m)),
      (''start_pos'', JInt (start_pos m)),
      (''end_pos'', JInt (end_pos m))]"

definition make_vector :: "string option \<Rightarrow> chunk \<times> real list \<Rightarrow> json" where
  "make_vector source_url ce =
     (case ce of (chunk, embedding) \<Rightarrow>
        JObj [(''id'', JStr (chunk_id chunk)),
              (''values'', JList (map JFloat embedding)),
              (''metadata'',
                 JObj (metadata_items (metadata chunk) @
                   [(''content'', JStr (chunk_content chunk)),
                    (''source_url'', case source_url of None \<Rightarrow> JNull | Some u \<Rightarrow> JStr u)]))])"

text \<open>
  \<open>ingest_document\<close>.  The chunker is called with the keywords \<open>document_name\<close>,
  \<open>content\<close>, \<open>chunk_size\<close> and \<open>chunk_overlap\<close>, as the source writes them.  The
  statements after that call (embedding, building the vectors, inserting, the returned
  dictionary) are \<open>ingest_chunks\<close>.
\<close>

definition ingest_chunks ::
  "env \<Rightarrow> rag_service \<Rightarrow> string \<Rightarrow> string \<Rightarrow> string option \<Rightarrow> chunk list \<Rightarrow> ingestion_result action"
where
  "ingest_chunks env self document_name content source_url chunks =
     (let texts = map chunk_content chunks
      in seq (embed_texts env texts)
           (\<lambda>embeddings.
              let vectors = map (make_vector source_url) (zip chunks embeddings)
              in seq (endee_insert env (service_endee_client self) (service_index_name self) vectors)
                   (\<lambda>_. ret \<lparr>ingested_document_name = document_name,
                              chunks_added = int (length vectors),
                              total_content_length = int (length content)\<rparr>)))"

definition ingest_document ::
  "env \<Rightarrow> settings \<Rightarrow> rag_service \<Rightarrow> string \<Rightarrow> string \<Rightarrow> string option \<Rightarrow> ingestion_result action"
where
  "ingest_document env st self document_name content source_url =
     seq (\<lambda>tr. lift (call_chunk_document (uuid_supply env tr)
                  [(''document_name'', AStr document_name),
                   (''content'', AStr content),
                   (''chunk_size'', AInt (settings_chunk_size st)),
                   (''chunk_overlap'', AInt (settings_chunk_overlap st))]) tr)
       (ingest_chunks env self document_name content source_url)"

text \<open>
  \<open>_generate_answer\<close>.  \<open>results[:3]\<close> is a list for a list and for a string; on a
  dictionary or a number it raises.  \<open>content[:300]\<close> inside the f-string is the prefix of
  a string, \<open>str\<close> of the prefix of a list, and raises on anything else.
\<close>

fun str_nat :: "nat \<Rightarrow> string" where
  "str_nat n =
     (if n < 10 then [''0123456789'' ! n]
      else str_nat (n div 10) @ [''0123456789'' ! (n mod 10)])"

fun join :: "string \<Rightarrow> string list \<Rightarrow> string" where
  "join sep [] = []"
| "join sep [x] = x"
| "join sep (x # y # ys) = x @ sep @ join sep (y # ys)"

fun first_three :: "json \<Rightarrow> json list outcome" where
  "first_three (JList xs) = Returns (take 3 xs)"
| "first_three (JStr s) = Returns (map (\<lambda>c. JStr [c]) (take 3 s))"
| "first_three _ = Raises (TypeError ''object is not subscriptable'')"

fun preview :: "env \<Rightarrow> json \<Rightarrow> string outcome" where
  "preview env (JStr s) = Returns (take 300 s)"
| "preview env (JList xs) = Returns (py_repr env (JList (take 300 xs)))"
| "preview env _ = Raises (TypeError ''object is not subscriptable'')"

text \<open>One turn of the loop over \<open>enumerate(results[:3], 1)\<close>: the parts it appends.\<close>

definition context_part :: "env \<Rightarrow> nat \<Rightarrow> json \<Rightarrow> string list outcome" where
  "context_part env i result =
     (case dict_get result ''metadata'' (JObj []) of
        Raises e \<Rightarrow> Raises e
      | Diverges \<Rightarrow> Diverges
      | Returns md \<Rightarrow>
          (case dict_get md ''content'' (JStr []) of
             Raises e \<Rightarrow> Raises e
           | Diverges \<Rightarrow> Diverges
           | Returns content \<Rightarrow>
               if truthy content then
                 (case preview env content of
                    Raises e \<Rightarrow> Raises e
                  | Diverges \<Rightarrow> Diverges
                  | Returns p \<Rightarrow>
                      Returns [''[Document '' @ str_nat i @ '']:\<newline>'' @ p @ ''...''])
               else Returns []))"

fun context_loop :: "env \<Rightarrow> nat \<Rightarrow> json list \<Rightarrow> string list \<Rightarrow> string list outcome" where
  "context_loop env i [] context_parts = Returns context_parts"
| "context_loop env i (result # rest) context_parts =
     (case context_part env i result of
        Raises e \<Rightarrow> Raises e
      | Diverges \<Rightarrow> Diverges
      | Returns part \<Rightarrow> context_loop env (i + 1) rest (context_parts @ part))"

definition chat_completions_create :: "env \<Rightarrow> chat_request \<Rightarrow> chat_response action" where
  "chat_completions_create env req tr = (of_sum (chat_create env tr req), tr @ [ChatCompletion req])"

definition generate_answer :: "env \<Rightarrow> settings \<Rightarrow> rag_service \<Rightarrow> string \<Rightarrow> json \<Rightarrow> string action" where
  "generate_answer env st self query results =
     (if service_openai_client self = None then ret ''LLM not configured''
      else
        seq (lift (first_three results))
          (\<lambda>top.
             seq (lift (context_loop env 1 top []))
               (\<lambda>context_parts.
                  let context = join ''\<newline>\<newline>'' context_parts
                  in catch
                       (seq (chat_completions_create env
                               \<lparr>chat_model = settings_openai_model st,
                                chat_messages =
                                  [(''system'',
                                    ''You are a helpful assistant that answers questions based on provided documents. Be concise and accurate.''),
                                   (''user'',
                                    ''Based on the following documents, answer the query:\<newline>\<newline>Query: ''
                                      @ query @ ''\<newline>\<newline>Context:\<newline>'' @ context)],
                                chat_max_tokens = settings_openai_max_tokens st,
                                chat_temperature = settings_openai_temperature st\<rparr>)
                          (\<lambda>choices.
                             case choices of
                               [] \<Rightarrow> raise (IndexError ''list index out of range'')
                             | message # _ \<Rightarrow>
                                 ret (case message of
                                        None \<Rightarrow> ''Unable to generate answer''
                                      | Some answer \<Rightarrow>
                                          if answer = [] then ''Unable to generate answer''
                                          else answer)))
                       is_Exception
                       (\<lambda>e. ret ''Error generating answer''))))"

text \<open>The dictionary returned by \<open>search\<close>; its keys \<open>query\<close> and \<open>results\<close> carry a prefix.\<close>

record retrieval_response =
  response_query :: string
  response_results :: json
  generated_answer :: "string option"
  retrieval_time_ms :: real
  total_time_ms :: real
  result_count :: int

definition search ::
  "env \<Rightarrow> settings \<Rightarrow> rag_service \<Rightarrow> string \<Rightarrow> int option \<Rightarrow> bool \<Rightarrow> retrieval_response action"
where
  "search env st self query top_k use_llm =
     seq (time_time env)
       (\<lambda>start_time.
          let top_k = (case top_k of
                         None \<Rightarrow> settings_top_k_results st
                       | Some k \<Rightarrow> if k = 0 then settings_top_k_results st else k)
          in seq (embed_text env query)
               (\<lambda>query_embedding.
                  seq (time_time env)
                    (\<lambda>retrieval_start.
                       seq (endee_search env (service_endee_client self) (service_index_name self)
                              query_embedding top_k None)
                         (\<lambda>results.
                            seq (time_time env)
                              (\<lambda>now.
                                 let retrieval_time = (now - retrieval_start) * 1000
                                 in seq (if use_llm \<and> truthy results \<and> service_openai_client self \<noteq> None
                                         then seq (generate_answer env st self query results)
                                                (\<lambda>answer. ret (Some answer))
                                         else ret None)
                                      (\<lambda>answer.
                                         seq (time_time env)
                                           (\<lambda>finish.
                                              let total_time = (finish - start_time) * 1000
                                              in seq (lift (py_len results))
                                                   (\<lambda>n. ret \<lparr>response_query = query,
                                                              response_results = results,
                                                              generated_answer = answer,
                                                              retrieval_time_ms = retrieval_time,
                                                              total_time_ms = total_time,
                                                              result_count = n\<rparr>))))))))"

section \<open>Notions used in the statements\<close>

text \<open>
  The request that \<open>health_check\<close> sends and the one that \<open>create_index\<close> sends; whether the
  server would answer a health check with status 200 after the events \<open>tr\<close>; the events of
  \<open>k\<close> polls that found the server not healthy, each followed by its one-second sleep.
\<close>

definition health_request :: "endee_client \<Rightarrow> request" where
  "health_request self =
     \<lparr>req_method = ''GET'', req_url = client_base_url self @ ''/api/v1/health'',
      req_json = None, req_headers = client_headers self, req_timeout = 5\<rparr>"

definition create_index_request :: "endee_client \<Rightarrow> string \<Rightarrow> int \<Rightarrow> string \<Rightarrow> request" where
  "create_index_request self name dimension metric =
     \<lparr>req_method = ''POST'', req_url = client_base_url self @ ''/api/v1/index/create'',
      req_json = Some (JObj [(''name'', JStr name), (''dimension'', JInt dimension),
                             (''metric'', JStr metric)]),
      req_headers = client_headers self, req_timeout = client_timeout self\<rparr>"

definition healthy_at :: "env \<Rightarrow> endee_client \<Rightarrow> event list \<Rightarrow> bool" where
  "healthy_at env self tr =
     (case session_send env tr (health_request self) of
        Inl e \<Rightarrow> False
      | Inr r \<Rightarrow> status_code r = 200)"

definition failed_polls :: "endee_client \<Rightarrow> nat \<Rightarrow> event list" where
  "failed_polls self k = concat (replicate k [HttpRequest (health_request self), Sleep 1])"

text \<open>
  The request that \<open>_generate_answer\<close> sends to the OpenAI client for a query and the
  context parts built from the results.
\<close>

definition answer_request :: "settings \<Rightarrow> string \<Rightarrow> string list \<Rightarrow> chat_request" where
  "answer_request st query context_parts =
     \<lparr>chat_model = settings_openai_model st,
      chat_messages =
        [(''system'',
          ''You are a helpful assistant that answers questions based on provided documents. Be concise and accurate.''),
         (''user'',
          ''Based on the following documents, answer the query:\<newline>\<newline>Query: ''
            @ query @ ''\<newline>\<newline>Context:\<newline>'' @ join ''\<newline>\<newline>'' context_parts)],
      chat_max_tokens = settings_openai_max_tokens st,
      chat_temperature = settings_openai_temperature st\<rparr>"

text \<open>An action only ever adds events to the run.\<close>

definition extends :: "'a action \<Rightarrow> bool" where
  "extends m = (\<forall>tr. prefix tr (snd (m tr)))"

text \<open>
  Concrete collaborators for the examples: a server that answers every request with status
  200 and one search result, a model that embeds every text as \<open>[0]\<close>, a clock that has
  ticked once per event, and an OpenAI client whose call fails.
\<close>

definition example_env :: env where
  "example_env =
     \<lparr>session_send = (\<lambda>tr req. Inr \<lparr>status_code = 200, response_text =
          JsonText (JObj [(''results'', JList [JObj [(''id'', JStr ''a''), (''score'', JFloat (9 / 10)),
             (''metadata'', JObj [(''content'', JStr ''some text'')])]])])\<rparr>),
      model_encode_text = (\<lambda>tr txt. Inr [0]),
      model_encode_texts = (\<lambda>tr texts. Inr (map (\<lambda>txt. [0]) texts)),
      model_dimension = 384,
      time_now = (\<lambda>tr. real (length tr)),
      uuid_supply = (\<lambda>tr k. ''uuid''),
      chat_create = (\<lambda>tr req. Inl (OtherException ''API error'')),
      py_repr = (\<lambda>j. [])\<rparr>"

definition example_service :: rag_service where
  "example_service = RAGService_init example_env default_settings ''documents'' None"

definition example_service_llm :: rag_service where
  "example_service_llm = example_service\<lparr>service_openai_client := Some ''sk-key''\<rparr>"

text \<open>A server that is down for the first two health checks and healthy afterwards.\<close>

definition slow_start_env :: env where
  "slow_start_env =
     example_env\<lparr>session_send :=
       (\<lambda>tr req. if length tr < 4 then Inl (RequestException ''connection refused'')
                  else Inr \<lparr>status_code = 200, response_text = NoText\<rparr>)\<rparr>"

text \<open>A server that never answers.\<close>

definition down_env :: env where
  "down_env = example_env\<lparr>session_send := (\<lambda>tr req. Inl (RequestException ''connection refused''))\<rparr>"

text \<open>
  A wall clock that is set back while a search runs: it ticks once per event, and its
  reading after five events is \<open>-5\<close>.
\<close>

definition step_back_env :: env where
  "step_back_env =
     example_env\<lparr>time_now := (\<lambda>tr. if length tr < 5 then real (length tr) else - 5)\<rparr>"

section \<open>The chunker: termination, coverage, degenerate configurations\<close>

lemma py_slice_whole: "py_slice s 0 (int (length s)) = s"
  by (simp add: py_slice_def py_clamp_def)

lemma chunk_document_empty:
  "chunk_document ids document_name [] chunk_size overlap = Some []"
  unfolding chunk_document_def by (subst chunk_loop.simps) simp

lemma chunk_document_one_chunk:
  assumes "content \<noteq> []" "int (length content) \<le> chunk_size"
  shows "chunk_document ids document_name content chunk_size overlap =
     Some [\<lparr>chunk_id = ids 0, chunk_content = content,
            metadata = \<lparr>meta_document_name = document_name, chunk_index = 0,
                        original_length = int (length content), start_pos = 0,
                        end_pos = int (length content)\<rparr>\<rparr>]"
  using assms unfolding chunk_document_def
  by (subst chunk_loop.simps) (simp add: Let_def py_slice_whole)

text \<open>
  With a step that is not positive and a content longer than \<open>chunk_size\<close>, the cursor never
  reaches the end: the loop does not return.
\<close>

lemma chunk_loop_diverges_aux:
  assumes "chunk_loop ids document_name content chunk_size step i chunks = Some r"
  shows "\<not> (step \<le> 0 \<and> i \<le> 0 \<and> chunk_size < int (length content) \<and> content \<noteq> [])"
proof (rule chunk_loop.raw_induct
    [where P = "\<lambda>ids document_name content chunk_size step i chunks r.
       \<not> (step \<le> 0 \<and> i \<le> 0 \<and> chunk_size < int (length content) \<and> content \<noteq> [])",
     OF _ assms])
  fix loop :: "(nat \<Rightarrow> string) \<Rightarrow> string \<Rightarrow> string \<Rightarrow> int \<Rightarrow> int \<Rightarrow> int \<Rightarrow> chunk list \<Rightarrow> chunk list option"
  fix ids document_name content chunk_size step i chunks r
  assume IH: "\<And>ids document_name content chunk_size step i chunks r.
      loop ids document_name content chunk_size step i chunks = Some r \<Longrightarrow>
      \<not> (step \<le> 0 \<and> i \<le> 0 \<and> chunk_size < int (length content) \<and> content \<noteq> [])"
  assume body: "(if i < int (length content)
      then let e = min (i + chunk_size) (int (length content));
               chunks' =
                 chunks @
                 [\<lparr>chunk_id = ids (length chunks),
                     chunk_content = py_slice content i e,
                     metadata =
                       \<lparr>meta_document_name = document_name,
                          chunk_index = int (length chunks),
                          original_length = int (length content),
                          start_pos = i, end_pos = e\<rparr>\<rparr>]
           in if int (length content) \<le> e then Some chunks'
              else loop ids document_name content chunk_size step (i + step) chunks'
      else Some chunks) = Some r"
  show "\<not> (step \<le> 0 \<and> i \<le> 0 \<and> chunk_size < int (length content) \<and> content \<noteq> [])"
  proof
    assume inv: "step \<le> 0 \<and> i \<le> 0 \<and> chunk_size < int (length content) \<and> content \<noteq> []"
    then have "0 < length content" by simp
    then have "1 \<le> int (length content)" by linarith
    with inv have "i < int (length content)"
      and "\<not> int (length content) \<le> min (i + chunk_size) (int (length content))"
      by linarith+
    with body obtain chunks' where
      "loop ids document_name content chunk_size step (i + step) chunks' = Some r"
      by (simp add: Let_def)
    from IH[OF this] inv show False by simp
  qed
qed

lemma chunk_document_diverges:
  assumes "chunk_size \<le> overlap" "chunk_size < int (length content)" "content \<noteq> []"
  shows "chunk_document ids document_name content chunk_size overlap = None"
proof (cases "chunk_document ids document_name content chunk_size overlap")
  case None
  then show ?thesis .
next
  case (Some r)
  then have "chunk_loop ids document_name content chunk_size (chunk_size - overlap) 0 [] = Some r"
    by (simp add: chunk_document_def)
  from chunk_loop_diverges_aux[OF this] assms show ?thesis by simp
qed

text \<open>
  With a positive step that is at most \<open>chunk_size\<close>, the loop started at cursor \<open>i\<close> with
  \<open>chunks\<close> already emitted returns, and what it appends starts at \<open>i\<close>, ends at the end of
  the content, leaves no gap, numbers its chunks from \<open>length chunks\<close> on, and covers
  exactly the positions from \<open>i\<close>.
\<close>

lemma chunk_loop_spec:
  assumes "0 < step" "step \<le> chunk_size"
  shows "\<exists>cs. chunk_loop ids document_name content chunk_size step i chunks = Some (chunks @ cs)
          \<and> (int (length content) \<le> i \<longrightarrow> cs = [])
          \<and> (i < int (length content) \<longrightarrow> cs \<noteq> [] \<and> start_pos (metadata (hd cs)) = i
                 \<and> end_pos (metadata (last cs)) = int (length content))
          \<and> (\<forall>k. Suc k < length cs \<longrightarrow>
                 start_pos (metadata (cs ! Suc k)) \<le> end_pos (metadata (cs ! k)))
          \<and> (\<forall>k < length cs. chunk_index (metadata (cs ! k)) = int (length chunks + k))
          \<and> (\<Union>x \<in> set cs. {start_pos (metadata x) ..< end_pos (metadata x)})
               = {i ..< int (length content)}"
proof (induction "nat (int (length content) - i)" arbitrary: i chunks rule: less_induct)
  case less
  let ?L = "int (length content)"
  show ?case
  proof (cases "i < ?L")
    case False
    then show ?thesis by (subst chunk_loop.simps) simp
  next
    case True
    let ?e = "min (i + chunk_size) ?L"
    let ?ch = "\<lparr>chunk_id = ids (length chunks), chunk_content = py_slice content i ?e,
                 metadata = \<lparr>meta_document_name = document_name, chunk_index = int (length chunks),
                   original_length = ?L, start_pos = i, end_pos = ?e\<rparr>\<rparr>"
    show ?thesis
    proof (cases "?L \<le> ?e")
      case True
      with \<open>i < ?L\<close> have "chunk_loop ids document_name content chunk_size step i chunks = Some (chunks @ [?ch])"
        by (subst chunk_loop.simps) (simp add: Let_def)
      moreover from True have "?e = ?L" by simp
      ultimately show ?thesis using \<open>i < ?L\<close> by (intro exI[of _ "[?ch]"]) auto
    next
      case False
      then have e: "?e = i + chunk_size" "i + chunk_size < ?L" by auto
      have lt: "i + step < ?L" using e assms by simp
      have "nat (?L - (i + step)) < nat (?L - i)" using assms lt by simp
      from less[OF this, of "chunks @ [?ch]"] obtain cs where
        cs: "chunk_loop ids document_name content chunk_size step (i + step) (chunks @ [?ch])
               = Some ((chunks @ [?ch]) @ cs)"
        and ne: "cs \<noteq> []" and hd: "start_pos (metadata (hd cs)) = i + step"
        and la: "end_pos (metadata (last cs)) = ?L"
        and ch: "\<forall>k. Suc k < length cs \<longrightarrow>
                 start_pos (metadata (cs ! Suc k)) \<le> end_pos (metadata (cs ! k))"
        and ix: "\<forall>k < length cs. chunk_index (metadata (cs ! k)) = int (length (chunks @ [?ch]) + k)"
        and un: "(\<Union>x \<in> set cs. {start_pos (metadata x) ..< end_pos (metadata x)}) = {i + step ..< ?L}"
        using lt by auto
      have run: "chunk_loop ids document_name content chunk_size step i chunks = Some (chunks @ (?ch # cs))"
        using True False cs by (subst chunk_loop.simps) (simp add: Let_def)
      have c1: "\<forall>k. Suc k < length (?ch # cs) \<longrightarrow>
                 start_pos (metadata ((?ch # cs) ! Suc k)) \<le> end_pos (metadata ((?ch # cs) ! k))"
      proof (intro allI impI)
        fix k assume k: "Suc k < length (?ch # cs)"
        show "start_pos (metadata ((?ch # cs) ! Suc k)) \<le> end_pos (metadata ((?ch # cs) ! k))"
        proof (cases k)
          case 0
          then show ?thesis using hd ne e assms by (simp add: hd_conv_nth)
        next
          case (Suc j)
          then show ?thesis using ch k by simp
        qed
      qed
      have c2: "\<forall>k < length (?ch # cs). chunk_index (metadata ((?ch # cs) ! k)) = int (length chunks + k)"
      proof (intro allI impI)
        fix k assume k: "k < length (?ch # cs)"
        show "chunk_index (metadata ((?ch # cs) ! k)) = int (length chunks + k)"
          using ix k by (cases k) auto
      qed
      have c3: "(\<Union>x \<in> set (?ch # cs). {start_pos (metadata x) ..< end_pos (metadata x)}) = {i ..< ?L}"
        using un e assms by auto
      show ?thesis
        apply (intro exI[of _ "?ch # cs"] conjI)
        using run apply simp
        using True apply simp
        using True ne la apply simp
        using c1 apply blast
        using c2 apply blast
        using c3 apply blast
        done
    qed
  qed
qed

text \<open>
  Claim C10.  For every non-empty content whose length is at most \<open>chunk_size\<close>,
  \<open>chunk_document\<close> returns, and returns exactly one chunk, which spans the whole content
  and has index 0, whatever \<open>overlap\<close> is (also when \<open>overlap \<ge> chunk_size\<close>).
\<close>

theorem chunk_document_short_content:
  assumes "content \<noteq> []" "int (length content) \<le> chunk_size"
  shows "chunk_document ids document_name content chunk_size overlap =
     Some [\<lparr>chunk_id = ids 0, chunk_content = content,
            metadata = \<lparr>meta_document_name = document_name, chunk_index = 0,
                        original_length = int (length content), start_pos = 0,
                        end_pos = int (length content)\<rparr>\<rparr>]"
  using assms by (rule chunk_document_one_chunk)

theorem chunk_document_short_content_witness:
  "''abc'' \<noteq> [] \<and> int (length ''abc'') \<le> 5 \<and>
   chunk_document (\<lambda>k. ''uuid'') ''doc'' ''abc'' 5 7 =
     Some [\<lparr>chunk_id = ''uuid'', chunk_content = ''abc'',
            metadata = \<lparr>meta_document_name = ''doc'', chunk_index = 0,
                        original_length = 3, start_pos = 0, end_pos = 3\<rparr>\<rparr>]"
  using chunk_document_short_content [of "''abc''" 5 "\<lambda>k. ''uuid''" "''doc''" 7] by simp

text \<open>
  Claim C2.  For \<open>chunk_size > overlap \<ge> 0\<close> and any content, \<open>chunk_document\<close> returns;
  empty content gives no chunk; otherwise the first chunk starts at 0, the last one ends at
  the length of the content, every later chunk starts at or before the end of the one before
  it, the spans together are exactly the positions of the content, and the values of
  \<open>chunk_index\<close> are \<open>0, 1, ..., n - 1\<close> in the order of emission.
\<close>

theorem chunk_document_coverage:
  assumes "0 \<le> overlap" "overlap < chunk_size"
  shows "\<exists>cs. chunk_document ids document_name content chunk_size overlap = Some cs
          \<and> (content = [] \<longrightarrow> cs = [])
          \<and> (content \<noteq> [] \<longrightarrow> cs \<noteq> [] \<and> start_pos (metadata (hd cs)) = 0
                 \<and> end_pos (metadata (last cs)) = int (length content))
          \<and> (\<forall>k. Suc k < length cs \<longrightarrow>
                 start_pos (metadata (cs ! Suc k)) \<le> end_pos (metadata (cs ! k)))
          \<and> (\<Union>c \<in> set cs. {start_pos (metadata c) ..< end_pos (metadata c)})
               = {0 ..< int (length content)}
          \<and> map (chunk_index \<circ> metadata) cs = map int [0 ..< length cs]"
proof -
  from assms have "0 < chunk_size - overlap" "chunk_size - overlap \<le> chunk_size" by simp_all
  from chunk_loop_spec[OF this, of ids document_name content 0 "[]"]
  obtain cs where run: "chunk_loop ids document_name content chunk_size (chunk_size - overlap) 0 [] = Some cs"
    and emp: "int (length content) \<le> 0 \<longrightarrow> cs = []"
    and ends: "0 < int (length content) \<longrightarrow> cs \<noteq> [] \<and> start_pos (metadata (hd cs)) = 0
                 \<and> end_pos (metadata (last cs)) = int (length content)"
    and chain: "\<forall>k. Suc k < length cs \<longrightarrow>
                 start_pos (metadata (cs ! Suc k)) \<le> end_pos (metadata (cs ! k))"
    and ix: "\<forall>k < length cs. chunk_index (metadata (cs ! k)) = int (length ([]::chunk list) + k)"
    and un: "(\<Union>x \<in> set cs. {start_pos (metadata x) ..< end_pos (metadata x)})
               = {0 ..< int (length content)}"
    by auto
  have "chunk_document ids document_name content chunk_size overlap = Some cs"
    using run by (simp add: chunk_document_def)
  moreover have "content = [] \<longrightarrow> cs = []" using emp by simp
  moreover have "content \<noteq> [] \<longrightarrow> cs \<noteq> [] \<and> start_pos (metadata (hd cs)) = 0
                 \<and> end_pos (metadata (last cs)) = int (length content)"
    using ends by simp
  moreover have "map (chunk_index \<circ> metadata) cs = map int [0 ..< length cs]"
    using ix by (intro nth_equalityI) simp_all
  ultimately show ?thesis using chain un by blast
qed

theorem chunk_document_coverage_witness:
  "(0::int) \<le> 1 \<and> (1::int) < 4 \<and>
   (\<exists>cs. chunk_document (\<lambda>k. ''uuid'') ''doc'' ''abcdefghij'' 4 1 = Some cs
      \<and> cs \<noteq> [] \<and> start_pos (metadata (hd cs)) = 0 \<and> end_pos (metadata (last cs)) = 10
      \<and> (\<Union>c \<in> set cs. {start_pos (metadata c) ..< end_pos (metadata c)}) = {0 ..< 10}
      \<and> map (chunk_index \<circ> metadata) cs = map int [0 ..< length cs])"
  using chunk_document_coverage [of 1 4 "\<lambda>k. ''uuid''" "''doc''" "''abcdefghij''"] by auto

text \<open>
  Claim C1, as amended.  \<open>chunk_document\<close> does not check its configuration and raises
  nothing: with \<open>overlap \<ge> chunk_size\<close> and a content that is empty or no longer than
  \<open>chunk_size\<close> it returns normally, no chunk for the empty content and one chunk that is
  the whole content otherwise.
\<close>

theorem chunk_document_no_configuration_check:
  assumes "chunk_size \<le> overlap" "content = [] \<or> int (length content) \<le> chunk_size"
  shows "chunk_document ids document_name content chunk_size overlap =
     Some (if content = [] then []
           else [\<lparr>chunk_id = ids 0, chunk_content = content,
                  metadata = \<lparr>meta_document_name = document_name, chunk_index = 0,
                              original_length = int (length content), start_pos = 0,
                              end_pos = int (length content)\<rparr>\<rparr>])"
  using assms by (auto simp: chunk_document_empty chunk_document_one_chunk)

theorem chunk_document_no_configuration_check_witness:
  "(2::int) \<le> 9 \<and> int (length ''ab'') \<le> 2 \<and>
   chunk_document (\<lambda>k. ''uuid'') ''doc'' ''ab'' 2 9 =
     Some [\<lparr>chunk_id = ''uuid'', chunk_content = ''ab'',
            metadata = \<lparr>meta_document_name = ''doc'', chunk_index = 0,
                        original_length = 2, start_pos = 0, end_pos = 2\<rparr>\<rparr>]"
  using chunk_document_no_configuration_check [of 2 9 "''ab''" "\<lambda>k. ''uuid''" "''doc''"] by simp

text \<open>
  Claim C1 as stated fails: with \<open>overlap = chunk_size = 3\<close> the call on \<open>abc\<close> returns one
  chunk instead of failing.
\<close>

theorem chunk_document_degenerate_counterexample:
  "(3::int) \<le> 3 \<and>
   chunk_document (\<lambda>k. ''uuid'') ''doc'' ''abc'' 3 3 =
     Some [\<lparr>chunk_id = ''uuid'', chunk_content = ''abc'',
            metadata = \<lparr>meta_document_name = ''doc'', chunk_index = 0,
                        original_length = 3, start_pos = 0, end_pos = 3\<rparr>\<rparr>]"
  by (simp add: chunk_document_one_chunk)

section \<open>Ingestion: the call of the chunker\<close>

text \<open>
  The keyword \<open>chunk_overlap\<close> names no parameter of \<open>chunk_document\<close> (the parameter is
  \<open>overlap\<close>), so binding the arguments fails and \<open>ingest_document\<close> raises a
  \<open>TypeError\<close> before it has done anything, whatever its arguments.
\<close>

lemma ingest_document_raises:
  "ingest_document env st self document_name content source_url tr =
     (Raises (TypeError (''EmbeddingService.chunk_document() got an unexpected keyword argument ''
        @ [CHR 0x27] @ ''chunk_overlap'' @ [CHR 0x27])), tr)"
  by (simp add: ingest_document_def seq_def lift_def call_chunk_document_def chunk_document_params_def)

text \<open>
  The statements after the chunker call do count the chunks: given chunks, one embedding per
  chunk and a successful insertion, they return the number of chunks and the length of the
  content.  No run of \<open>ingest_document\<close> reaches them.
\<close>

lemma ingest_chunks_count:
  assumes "embed_texts env (map chunk_content chunks) tr = (Returns embeddings, t1)"
    and "length embeddings = length chunks"
    and "endee_insert env (service_endee_client self) (service_index_name self)
           (map (make_vector source_url) (zip chunks embeddings)) t1 = (Returns (), t2)"
  shows "ingest_chunks env self document_name content source_url chunks tr =
     (Returns \<lparr>ingested_document_name = document_name,
               chunks_added = int (length chunks),
               total_content_length = int (length content)\<rparr>, t2)"
  using assms by (simp add: ingest_chunks_def seq_def ret_def Let_def)

text \<open>
  Claim C3.  A content of 1000 characters with \<open>chunk_size = 512\<close> and \<open>overlap = 50\<close> is
  split into 3 chunks that start at 0, 462 and 924, and \<open>ingest_document\<close> returns
  \<open>chunks_added = 3\<close> for it.  The chunker does so; \<open>ingest_document\<close> with the default
  settings (512 and 50) raises the \<open>TypeError\<close> instead of returning.
\<close>

theorem example_1000_characters:
  "(\<exists>cs. chunk_document (\<lambda>k. ''uuid'') ''doc1'' (replicate 1000 (CHR ''x'')) 512 50 = Some cs
      \<and> map (start_pos \<circ> metadata) cs = [0, 462, 924])
   \<and> settings_chunk_size default_settings = 512 \<and> settings_chunk_overlap default_settings = 50
   \<and> ingest_document example_env default_settings example_service ''doc1''
        (replicate 1000 (CHR ''x'')) None [] =
      (Raises (TypeError (''EmbeddingService.chunk_document() got an unexpected keyword argument ''
        @ [CHR 0x27] @ ''chunk_overlap'' @ [CHR 0x27])), [])"
  by (simp add: chunk_document_def chunk_loop.simps Let_def ingest_document_raises default_settings_def)

text \<open>
  Claim C4.  A successful \<open>ingest_document\<close> returns the number of chunks of the content as
  \<open>chunks_added\<close> and the length of the content as \<open>total_content_length\<close>.  In the code no
  call of \<open>ingest_document\<close> is successful: every call raises the \<open>TypeError\<close> and leaves
  the run as it was.
\<close>

theorem ingest_document_always_raises:
  "ingest_document env st self document_name content source_url tr =
     (Raises (TypeError (''EmbeddingService.chunk_document() got an unexpected keyword argument ''
        @ [CHR 0x27] @ ''chunk_overlap'' @ [CHR 0x27])), tr)"
  by (rule ingest_document_raises)

section \<open>Ingestion: validation\<close>

text \<open>
  Claim C7.  An ingest call with an empty \<open>document_name\<close> or \<open>content\<close> fails with a
  validation error before anything is chunked, embedded or inserted.  \<open>ingest_document\<close>
  makes no such check: on the empty content it fails as on any other content, with the
  \<open>TypeError\<close> of the chunker call; and neither the chunker nor the statements after it
  reject an empty content: the chunker returns no chunk, and the empty batch is embedded and
  inserted, with \<open>chunks_added = 0\<close> returned.
\<close>

theorem ingest_document_empty_content:
  "ingest_document example_env default_settings example_service ''doc1'' [] None [] =
     (Raises (TypeError (''EmbeddingService.chunk_document() got an unexpected keyword argument ''
        @ [CHR 0x27] @ ''chunk_overlap'' @ [CHR 0x27])), [])
   \<and> ingest_document example_env default_settings example_service ''doc1'' ''some text'' None [] =
     (Raises (TypeError (''EmbeddingService.chunk_document() got an unexpected keyword argument ''
        @ [CHR 0x27] @ ''chunk_overlap'' @ [CHR 0x27])), [])
   \<and> chunk_document (uuid_supply example_env []) ''doc1'' [] 512 50 = Some []
   \<and> ingest_chunks example_env example_service ''doc1'' [] None [] [] =
     (Returns \<lparr>ingested_document_name = ''doc1'', chunks_added = 0, total_content_length = 0\<rparr>,
      [EncodeTexts [],
       HttpRequest
        \<lparr>req_method = ''POST'',
         req_url = ''http://localhost:8080/api/v1/index/documents/insert'',
         req_json = Some (JObj [(''vectors'', JList [])]),
         req_headers = [(''Content-Type'', ''application/json'')],
         req_timeout = 30\<rparr>])"
  by (simp add: ingest_document_raises chunk_document_empty ingest_chunks_def embed_texts_def
      endee_insert_def make_request_def catch_def seq_def session_request_def ret_def lift_def
      Let_def example_env_def example_service_def default_settings_def RAGService_init_def
      EndeeClient_init_def EmbeddingService_init_def rstrip_def)

section \<open>The client: health check and index creation\<close>

lemma health_check_run:
  "health_check env self tr =
     (Returns (healthy_at env self tr), tr @ [HttpRequest (health_request self)])"
proof (cases "session_send env tr (health_request self)")
  case (Inl e)
  then show ?thesis
    by (simp add: health_check_def catch_def seq_def session_request_def healthy_at_def
        health_request_def ret_def)
next
  case (Inr r)
  then show ?thesis
    by (simp add: health_check_def catch_def seq_def session_request_def healthy_at_def
        health_request_def ret_def)
qed

text \<open>
  Claim C9.  \<open>health_check\<close> always returns a boolean and never raises, whatever the
  request does (any response, any exception); it returns \<open>True\<close> exactly when the server
  answers with status 200.
\<close>

theorem health_check_never_raises:
  "\<exists>b. health_check env self tr = (Returns b, tr @ [HttpRequest (health_request self)])
     \<and> b = (\<exists>r. session_send env tr (health_request self) = Inr r \<and> status_code r = 200)"
  by (auto simp: health_check_run healthy_at_def split: sum.splits)

lemma create_index_run:
  "create_index env self name dimension metric tr =
     ((case session_send env tr (create_index_request self name dimension metric) of
         Inl e \<Rightarrow>
           (case e of
              HTTPError status m \<Rightarrow> if status = 409 then Returns () else Raises e
            | _ \<Rightarrow> Raises e)
       | Inr r \<Rightarrow>
           if status_code r = 409 then Returns ()
           else if 400 \<le> status_code r \<and> status_code r < 600
             then Raises (HTTPError (status_code r) ''HTTP error'')
           else if response_text r = BadText then Raises (RequestException ''JSONDecodeError'')
           else Returns ()),
      tr @ [HttpRequest (create_index_request self name dimension metric)])"
proof (cases "session_send env tr (create_index_request self name dimension metric)")
  case (Inl e)
  then show ?thesis
    by (cases e)
       (simp_all add: create_index_def make_request_def catch_def seq_def session_request_def
          create_index_request_def raise_def ret_def Let_def)
next
  case (Inr r)
  then show ?thesis
    by (cases "response_text r")
       (simp_all add: create_index_def make_request_def catch_def seq_def session_request_def
          create_index_request_def raise_def ret_def Let_def)
qed

section \<open>Startup: polling the health check\<close>

lemma length_failed_polls [simp]: "length (failed_polls self k) = 2 * k"
  by (induction k) (simp_all add: failed_polls_def)

lemma failed_polls_Suc:
  "failed_polls self (Suc k) = [HttpRequest (health_request self), Sleep 1] @ failed_polls self k"
  by (simp add: failed_polls_def)

lemma failed_polls_0 [simp]: "failed_polls self 0 = []"
  by (simp add: failed_polls_def)

lemma wait_for_endee_never_healthy:
  assumes "\<forall>j < length attempts. \<not> healthy_at env self (tr @ failed_polls self j)"
  shows "wait_for_endee env self attempts tr =
     (Raises (RuntimeError ''Endee server is not responding''), tr @ failed_polls self (length attempts))"
  using assms
proof (induction attempts arbitrary: tr)
  case Nil
  then show ?case by (simp add: raise_def)
next
  case (Cons a attempts)
  from Cons.prems have h0: "\<not> healthy_at env self tr" by force
  have "\<forall>j < length attempts.
      \<not> healthy_at env self ((tr @ [HttpRequest (health_request self), Sleep 1]) @ failed_polls self j)"
  proof (intro allI impI)
    fix j assume "j < length attempts"
    then have "Suc j < length (a # attempts)" by simp
    with Cons.prems have "\<not> healthy_at env self (tr @ failed_polls self (Suc j))" by blast
    then show "\<not> healthy_at env self ((tr @ [HttpRequest (health_request self), Sleep 1]) @ failed_polls self j)"
      by (simp add: failed_polls_Suc)
  qed
  from Cons.IH[OF this] h0 show ?case
    by (simp add: seq_def health_check_run time_sleep_def failed_polls_Suc)
qed

lemma wait_for_endee_healthy:
  assumes "k < length attempts"
    and "\<forall>j < k. \<not> healthy_at env self (tr @ failed_polls self j)"
    and "healthy_at env self (tr @ failed_polls self k)"
  shows "wait_for_endee env self attempts tr =
     (Returns (), tr @ failed_polls self k @ [HttpRequest (health_request self)])"
  using assms
proof (induction attempts arbitrary: tr k)
  case Nil
  then show ?case by simp
next
  case (Cons a attempts)
  show ?case
  proof (cases k)
    case 0
    with Cons.prems show ?thesis
      by (simp add: seq_def health_check_run ret_def)
  next
    case (Suc k')
    with Cons.prems have h0: "\<not> healthy_at env self tr" by force
    have 1: "k' < length attempts" using Cons.prems Suc by simp
    have 2: "\<forall>j < k'.
      \<not> healthy_at env self ((tr @ [HttpRequest (health_request self), Sleep 1]) @ failed_polls self j)"
    proof (intro allI impI)
      fix j assume "j < k'"
      then have "Suc j < k" using Suc by simp
      with Cons.prems have "\<not> healthy_at env self (tr @ failed_polls self (Suc j))" by blast
      then show "\<not> healthy_at env self ((tr @ [HttpRequest (health_request self), Sleep 1]) @ failed_polls self j)"
        by (simp add: failed_polls_Suc)
    qed
    have 3: "healthy_at env self ((tr @ [HttpRequest (health_request self), Sleep 1]) @ failed_polls self k')"
      using Cons.prems(3) Suc by (simp add: failed_polls_Suc)
    from Cons.IH[OF 1 2 3] h0 Suc show ?thesis
      by (simp add: seq_def health_check_run time_sleep_def failed_polls_Suc)
  qed
qed

text \<open>
  Claim C8.  \<open>initialize\<close> polls the health check at most 10 times, with a sleep of one
  second after each poll that is not healthy.  If none of the 10 polls is healthy it raises
  the \<open>RuntimeError\<close> (server not responding) after exactly 10 polls and sends no
  index creation request.  If poll number \<open>k\<close> (counting from 0) is the first healthy one,
  it stops polling and sends one request that creates the index named \<open>index_name\<close> with
  the dimension of the embedder and the metric \<open>cosine\<close>; the creation succeeds when the
  server accepts it or reports the index as existing (status 409).
\<close>

theorem initialize_bounded_polling:
  "((\<forall>j < 10. \<not> healthy_at env (service_endee_client self)
                    (tr @ failed_polls (service_endee_client self) j)) \<longrightarrow>
      initialize env self tr =
        (Raises (RuntimeError ''Endee server is not responding''),
         tr @ failed_polls (service_endee_client self) 10))
   \<and> (k < 10
        \<and> (\<forall>j < k. \<not> healthy_at env (service_endee_client self)
                       (tr @ failed_polls (service_endee_client self) j))
        \<and> healthy_at env (service_endee_client self)
             (tr @ failed_polls (service_endee_client self) k) \<longrightarrow>
      initialize env self tr =
        ((case session_send env
                 (tr @ failed_polls (service_endee_client self) k
                     @ [HttpRequest (health_request (service_endee_client self))])
                 (create_index_request (service_endee_client self) (service_index_name self)
                    (embedder_dimension (service_embedding_service self)) ''cosine'') of
            Inl e \<Rightarrow>
              (case e of
                 HTTPError status m \<Rightarrow> if status = 409 then Returns () else Raises e
               | _ \<Rightarrow> Raises e)
          | Inr r \<Rightarrow>
              if status_code r = 409 then Returns ()
              else if 400 \<le> status_code r \<and> status_code r < 600
                then Raises (HTTPError (status_code r) ''HTTP error'')
              else if response_text r = BadText then Raises (RequestException ''JSONDecodeError'')
              else Returns ()),
         tr @ failed_polls (service_endee_client self) k
            @ [HttpRequest (health_request (service_endee_client self)),
               HttpRequest (create_index_request (service_endee_client self) (service_index_name self)
                 (embedder_dimension (service_embedding_service self)) ''cosine'')]))"
proof (intro conjI impI)
  assume "\<forall>j < 10. \<not> healthy_at env (service_endee_client self)
                    (tr @ failed_polls (service_endee_client self) j)"
  then have "\<forall>j < length [0 ..< 10]. \<not> healthy_at env (service_endee_client self)
                    (tr @ failed_polls (service_endee_client self) j)"
    by simp
  from wait_for_endee_never_healthy[OF this]
  show "initialize env self tr =
        (Raises (RuntimeError ''Endee server is not responding''),
         tr @ failed_polls (service_endee_client self) 10)"
    by (simp add: initialize_def seq_def Let_def)
next
  assume h: "k < 10
        \<and> (\<forall>j < k. \<not> healthy_at env (service_endee_client self)
                       (tr @ failed_polls (service_endee_client self) j))
        \<and> healthy_at env (service_endee_client self)
             (tr @ failed_polls (service_endee_client self) k)"
  then have "k < length [0 ..< 10]" by simp
  from wait_for_endee_healthy[OF this] h
  have "wait_for_endee env (service_endee_client self) [0 ..< 10] tr =
     (Returns (), tr @ failed_polls (service_endee_client self) k
        @ [HttpRequest (health_request (service_endee_client self))])"
    by blast
  then show "initialize env self tr =
        ((case session_send env
                 (tr @ failed_polls (service_endee_client self) k
                     @ [HttpRequest (health_request (service_endee_client self))])
                 (create_index_request (service_endee_client self) (service_index_name self)
                    (embedder_dimension (service_embedding_service self)) ''cosine'') of
            Inl e \<Rightarrow>
              (case e of
                 HTTPError status m \<Rightarrow> if status = 409 then Returns () else Raises e
               | _ \<Rightarrow> Raises e)
          | Inr r \<Rightarrow>
              if status_code r = 409 then Returns ()
              else if 400 \<le> status_code r \<and> status_code r < 600
                then Raises (HTTPError (status_code r) ''HTTP error'')
              else if response_text r = BadText then Raises (RequestException ''JSONDecodeError'')
              else Returns ()),
         tr @ failed_polls (service_endee_client self) k
            @ [HttpRequest (health_request (service_endee_client self)),
               HttpRequest (create_index_request (service_endee_client self) (service_index_name self)
                 (embedder_dimension (service_embedding_service self)) ''cosine'')])"
    by (simp add: initialize_def seq_def Let_def create_index_run get_model_info_def)
qed

lemma example_dimension:
  "embedder_dimension (service_embedding_service example_service) = 384"
  "service_index_name example_service = ''documents''"
  by (simp_all add: example_service_def RAGService_init_def EmbeddingService_init_def example_env_def)

theorem initialize_bounded_polling_witness:
  "initialize down_env example_service [] =
     (Raises (RuntimeError ''Endee server is not responding''),
      failed_polls (service_endee_client example_service) 10)
   \<and> initialize slow_start_env example_service [] =
     (Returns (),
      failed_polls (service_endee_client example_service) 2
        @ [HttpRequest (health_request (service_endee_client example_service)),
           HttpRequest (create_index_request (service_endee_client example_service)
                          ''documents'' 384 ''cosine'')])"
proof
  have "\<forall>j < 10. \<not> healthy_at down_env (service_endee_client example_service)
                    ([] @ failed_polls (service_endee_client example_service) j)"
    by (simp add: healthy_at_def down_env_def)
  with initialize_bounded_polling[of down_env example_service "[]" 0]
  show "initialize down_env example_service [] =
     (Raises (RuntimeError ''Endee server is not responding''),
      failed_polls (service_endee_client example_service) 10)"
    by simp
next
  have "(2::nat) < 10
        \<and> (\<forall>j < 2. \<not> healthy_at slow_start_env (service_endee_client example_service)
                       ([] @ failed_polls (service_endee_client example_service) j))
        \<and> healthy_at slow_start_env (service_endee_client example_service)
             ([] @ failed_polls (service_endee_client example_service) 2)"
    by (simp add: healthy_at_def slow_start_env_def)
  with initialize_bounded_polling[of slow_start_env example_service "[]" 2]
  show "initialize slow_start_env example_service [] =
     (Returns (),
      failed_polls (service_endee_client example_service) 2
        @ [HttpRequest (health_request (service_endee_client example_service)),
           HttpRequest (create_index_request (service_endee_client example_service)
                          ''documents'' 384 ''cosine'')])"
    by (simp add: example_dimension slow_start_env_def)
qed

section \<open>Retrieval: timing and answer generation\<close>

lemma seq_Returns_iff:
  "seq m f tr = (Returns y, tr') \<longleftrightarrow> (\<exists>x t. m tr = (Returns x, t) \<and> f x t = (Returns y, tr'))"
proof (cases "m tr")
  case (Pair r t)
  then show ?thesis by (cases r) (simp_all add: seq_def)
qed

lemma extendsD: "extends m \<Longrightarrow> m tr = (r, tr') \<Longrightarrow> prefix tr tr'"
  by (metis extends_def snd_conv)

lemma extends_ret: "extends (ret x)"
  by (simp add: extends_def ret_def)

lemma extends_raise: "extends (raise e)"
  by (simp add: extends_def raise_def)

lemma extends_lift: "extends (lift r)"
  by (simp add: extends_def lift_def)

lemma extends_seq:
  assumes "extends m" "\<And>x. extends (f x)"
  shows "extends (seq m f)"
  unfolding extends_def
proof
  fix tr
  obtain r t where mt: "m tr = (r, t)" by (cases "m tr")
  with assms(1) have p: "prefix tr t" by (rule extendsD)
  show "prefix tr (snd (seq m f tr))"
  proof (cases r)
    case (Returns x)
    obtain r' t' where ft: "f x t = (r', t')" by (cases "f x t")
    with assms(2) have "prefix t t'" by (rule extendsD)
    with p mt Returns ft show ?thesis by (auto simp: seq_def intro: prefix_order.trans)
  next
    case (Raises e)
    with p mt show ?thesis by (simp add: seq_def)
  next
    case Diverges
    with p mt show ?thesis by (simp add: seq_def)
  qed
qed

lemma extends_catch:
  assumes "extends m" "\<And>e. extends (handler e)"
  shows "extends (catch m C handler)"
  unfolding extends_def
proof
  fix tr
  obtain r t where mt: "m tr = (r, t)" by (cases "m tr")
  with assms(1) have p: "prefix tr t" by (rule extendsD)
  show "prefix tr (snd (catch m C handler tr))"
  proof (cases r)
    case (Raises e)
    obtain r' t' where ht: "handler e t = (r', t')" by (cases "handler e t")
    with assms(2) have "prefix t t'" by (rule extendsD)
    with p mt Raises ht show ?thesis by (auto simp: catch_def intro: prefix_order.trans)
  next
    case (Returns x)
    with p mt show ?thesis by (simp add: catch_def)
  next
    case Diverges
    with p mt show ?thesis by (simp add: catch_def)
  qed
qed

lemma extends_session_request: "extends (session_request env req)"
  by (simp add: extends_def session_request_def)

lemma extends_embed_text: "extends (embed_text env txt)"
  by (simp add: extends_def embed_text_def)

lemma extends_chat: "extends (chat_completions_create env req)"
  by (simp add: extends_def chat_completions_create_def)

lemma extends_make_request: "extends (make_request env self method endpoint data)"
  unfolding make_request_def Let_def
  by (intro extends_catch extends_seq extends_session_request extends_raise)
     (auto intro: extends_raise extends_ret split: body.splits)

lemma extends_endee_search: "extends (endee_search env self index_name query_vector k filter')"
  unfolding endee_search_def Let_def
  by (intro extends_seq extends_make_request extends_lift)

lemma extends_generate_answer: "extends (generate_answer env st self query results)"
  unfolding generate_answer_def Let_def
  by (auto intro!: extends_seq extends_lift extends_catch extends_ret extends_raise extends_chat
      split: list.splits)

text \<open>
  Claim C6, as amended.  For every response that \<open>search\<close> returns,
  \<open>retrieval_time_ms\<close> is 1000 times the difference of the clock readings taken just
  before and just after the store search, and \<open>total_time_ms\<close> is 1000 times the difference
  of the reading taken before the query is embedded and the one taken after the optional
  answer generation; the two readings around the store search are taken between the other
  two.  So \<open>retrieval_time_ms \<le> total_time_ms\<close> whenever the clock is not set back between
  the first and the second reading nor between the third and the fourth.
\<close>

theorem search_timing_intervals:
  assumes run: "search env st self query top_k use_llm tr = (Returns resp, tr')"
  shows "\<exists>qe t1 rs t2 t3.
           embed_text env query (tr @ [TimeRead]) = (Returns qe, t1)
         \<and> endee_search env (service_endee_client self) (service_index_name self) qe
              (case top_k of
                 None \<Rightarrow> settings_top_k_results st
               | Some k \<Rightarrow> if k = 0 then settings_top_k_results st else k)
              None (t1 @ [TimeRead]) = (Returns rs, t2)
         \<and> (if use_llm \<and> truthy rs \<and> service_openai_client self \<noteq> None
             then seq (generate_answer env st self query rs) (\<lambda>answer. ret (Some answer))
             else ret None) (t2 @ [TimeRead]) = (Returns (generated_answer resp), t3)
         \<and> tr' = t3 @ [TimeRead]
         \<and> prefix tr t1 \<and> prefix t1 t2 \<and> prefix t2 t3
         \<and> retrieval_time_ms resp = (time_now env t2 - time_now env t1) * 1000
         \<and> total_time_ms resp = (time_now env t3 - time_now env tr) * 1000
         \<and> (time_now env tr \<le> time_now env t1 \<and> time_now env t2 \<le> time_now env t3 \<longrightarrow>
              retrieval_time_ms resp \<le> total_time_ms resp)"
proof -
  from run obtain qe t1 rs t2 t3 where
    emb: "embed_text env query (tr @ [TimeRead]) = (Returns qe, t1)"
    and sea: "endee_search env (service_endee_client self) (service_index_name self) qe
              (case top_k of
                 None \<Rightarrow> settings_top_k_results st
               | Some k \<Rightarrow> if k = 0 then settings_top_k_results st else k)
              None (t1 @ [TimeRead]) = (Returns rs, t2)"
    and gen: "(if use_llm \<and> truthy rs \<and> service_openai_client self \<noteq> None
               then seq (generate_answer env st self query rs) (\<lambda>answer. ret (Some answer))
               else ret None) (t2 @ [TimeRead]) = (Returns (generated_answer resp), t3)"
    and fin: "tr' = t3 @ [TimeRead]"
    and rt: "retrieval_time_ms resp = (time_now env t2 - time_now env t1) * 1000"
    and tt: "total_time_ms resp = (time_now env t3 - time_now env tr) * 1000"
    unfolding search_def
    by (auto simp: seq_Returns_iff time_time_def ret_def lift_def Let_def)
  have "prefix (tr @ [TimeRead]) t1"
    using extends_embed_text emb by (rule extendsD)
  then have p1: "prefix tr t1" by (meson append_prefixD)
  have "prefix (t1 @ [TimeRead]) t2"
    using extends_endee_search sea by (rule extendsD)
  then have p2: "prefix t1 t2" by (meson append_prefixD)
  have "extends (if use_llm \<and> truthy rs \<and> service_openai_client self \<noteq> None
               then seq (generate_answer env st self query rs) (\<lambda>answer. ret (Some answer))
               else ret None)"
    by (simp add: extends_seq extends_generate_answer extends_ret)
  from this gen have "prefix (t2 @ [TimeRead]) t3" by (rule extendsD)
  then have p3: "prefix t2 t3" by (meson append_prefixD)
  have ord: "time_now env tr \<le> time_now env t1 \<and> time_now env t2 \<le> time_now env t3 \<longrightarrow>
              retrieval_time_ms resp \<le> total_time_ms resp"
    unfolding rt tt by simp
  from emb sea gen fin p1 p2 p3 rt tt ord show ?thesis by blast
qed

lemma example_search_run:
  "search example_env default_settings example_service ''test query'' (Some 2) False [] =
    (Returns
      \<lparr>response_query = ''test query'',
       response_results =
         JList [JObj [(''id'', JStr ''a''), (''score'', JFloat (9 / 10)),
                      (''metadata'', JObj [(''content'', JStr ''some text'')])]],
       generated_answer = None, retrieval_time_ms = 2000,
       total_time_ms = 5000, result_count = 1\<rparr>,
     [TimeRead, EncodeText ''test query'', TimeRead,
      HttpRequest
       \<lparr>req_method = ''POST'',
        req_url = ''http://localhost:8080/api/v1/index/documents/search'',
        req_json = Some (JObj [(''query'', JList [JFloat 0]), (''k'', JInt 2)]),
        req_headers = [(''Content-Type'', ''application/json'')],
        req_timeout = 30\<rparr>,
      TimeRead, TimeRead])"
  by (simp add: search_def seq_def time_time_def embed_text_def endee_search_def make_request_def
      catch_def session_request_def ret_def lift_def raise_def Let_def
      example_env_def example_service_def default_settings_def RAGService_init_def
      EndeeClient_init_def EmbeddingService_init_def rstrip_def)

theorem search_timing_intervals_witness:
  "\<exists>resp tr'. search example_env default_settings example_service ''test query'' (Some 2) False [] =
       (Returns resp, tr')
     \<and> retrieval_time_ms resp = 2000 \<and> total_time_ms resp = 5000
     \<and> retrieval_time_ms resp \<le> total_time_ms resp"
proof -
  let ?resp = "\<lparr>response_query = ''test query'',
       response_results =
         JList [JObj [(''id'', JStr ''a''), (''score'', JFloat (9 / 10)),
                      (''metadata'', JObj [(''content'', JStr ''some text'')])]],
       generated_answer = None, retrieval_time_ms = 2000,
       total_time_ms = 5000, result_count = 1\<rparr>"
  from search_timing_intervals[OF example_search_run] obtain t1 t2 t3 :: "event list" where
    p: "prefix [] t1" "prefix t2 t3"
    and ord: "time_now example_env [] \<le> time_now example_env t1
                \<and> time_now example_env t2 \<le> time_now example_env t3 \<longrightarrow>
              retrieval_time_ms ?resp \<le> total_time_ms ?resp"
    by blast
  have "time_now example_env [] \<le> time_now example_env t1"
    and "time_now example_env t2 \<le> time_now example_env t3"
    using p by (simp_all add: example_env_def prefix_length_le)
  with ord have "retrieval_time_ms ?resp \<le> total_time_ms ?resp" by blast
  with example_search_run show ?thesis by (intro exI[of _ ?resp] exI) simp
qed

text \<open>
  Claim C6 as stated fails: \<open>time.time()\<close> is the wall clock, and when it is set back
  before the last reading the response has \<open>retrieval_time_ms = 2000\<close> and
  \<open>total_time_ms = -5000\<close>.
\<close>

theorem search_clock_set_back_counterexample:
  "fst (search step_back_env default_settings example_service ''test query'' (Some 2) False []) =
     Returns
      \<lparr>response_query = ''test query'',
       response_results =
         JList [JObj [(''id'', JStr ''a''), (''score'', JFloat (9 / 10)),
                      (''metadata'', JObj [(''content'', JStr ''some text'')])]],
       generated_answer = None, retrieval_time_ms = 2000,
       total_time_ms = - 5000, result_count = 1\<rparr>
   \<and> \<not> ((2000::real) \<le> - 5000)"
  by (simp add: search_def seq_def time_time_def embed_text_def endee_search_def make_request_def
      catch_def session_request_def ret_def lift_def raise_def Let_def step_back_env_def
      example_env_def example_service_def default_settings_def RAGService_init_def
      EndeeClient_init_def EmbeddingService_init_def rstrip_def)

lemma catch_chat_raises:
  assumes "chat_create env t req = Inl e" "is_Exception e"
  shows "catch (seq (chat_completions_create env req) f) is_Exception (\<lambda>e. ret s) t =
     (Returns s, t @ [ChatCompletion req])"
  using assms by (simp add: catch_def seq_def chat_completions_create_def ret_def)

lemma generate_answer_degrades:
  assumes "service_openai_client self \<noteq> None"
    and "context_loop env 1 (take 3 rs) [] = Returns parts"
    and "chat_create env t (answer_request st query parts) = Inl e"
    and "is_Exception e"
  shows "generate_answer env st self query (JList rs) t =
     (Returns ''Error generating answer'', t @ [ChatCompletion (answer_request st query parts)])"
  using assms(1,2) catch_chat_raises[OF assms(3,4)]
  by (auto simp: generate_answer_def seq_def lift_def Let_def answer_request_def)

text \<open>
  Claim C5, as amended.  Take a \<open>search\<close> with \<open>use_llm = True\<close> whose query embedding and
  store search succeed with a list of results.  If no OpenAI client is configured, \<open>search\<close>
  returns a complete response whose \<open>generated_answer\<close> is \<open>None\<close>, and the answerer is not
  called.  If a client is configured, the list is not empty, the context can be built from
  its first three results, and the call of the answerer that \<open>search\<close> makes raises an
  \<open>Exception\<close>, then \<open>search\<close> returns a complete response whose \<open>generated_answer\<close> is
  the sentinel \<open>Error generating answer\<close>.
\<close>

theorem search_answerer_degradation:
  assumes emb: "embed_text env query (tr @ [TimeRead]) = (Returns qe, t1)"
    and sea: "endee_search env (service_endee_client self) (service_index_name self) qe
                (case top_k of
                   None \<Rightarrow> settings_top_k_results st
                 | Some k \<Rightarrow> if k = 0 then settings_top_k_results st else k)
                None (t1 @ [TimeRead]) = (Returns (JList rs), t2)"
  shows "(service_openai_client self = None \<longrightarrow>
            (\<exists>resp. search env st self query top_k True tr = (Returns resp, t2 @ [TimeRead, TimeRead])
               \<and> response_query resp = query \<and> response_results resp = JList rs
               \<and> result_count resp = int (length rs) \<and> generated_answer resp = None))
       \<and> (service_openai_client self \<noteq> None \<and> rs \<noteq> []
            \<and> context_loop env 1 (take 3 rs) [] = Returns parts
            \<and> chat_create env (t2 @ [TimeRead]) (answer_request st query parts) = Inl e
            \<and> is_Exception e \<longrightarrow>
            (\<exists>resp. search env st self query top_k True tr =
                 (Returns resp,
                  t2 @ [TimeRead, ChatCompletion (answer_request st query parts), TimeRead])
               \<and> response_query resp = query \<and> response_results resp = JList rs
               \<and> result_count resp = int (length rs)
               \<and> generated_answer resp = Some ''Error generating answer''))"
proof (intro conjI impI)
  assume "service_openai_client self = None"
  then show "\<exists>resp. search env st self query top_k True tr = (Returns resp, t2 @ [TimeRead, TimeRead])
               \<and> response_query resp = query \<and> response_results resp = JList rs
               \<and> result_count resp = int (length rs) \<and> generated_answer resp = None"
    using emb sea
    by (simp add: search_def seq_def time_time_def ret_def lift_def Let_def)
next
  assume h: "service_openai_client self \<noteq> None \<and> rs \<noteq> []
            \<and> context_loop env 1 (take 3 rs) [] = Returns parts
            \<and> chat_create env (t2 @ [TimeRead]) (answer_request st query parts) = Inl e
            \<and> is_Exception e"
  then have ga: "generate_answer env st self query (JList rs) (t2 @ [TimeRead]) =
     (Returns ''Error generating answer'',
      (t2 @ [TimeRead]) @ [ChatCompletion (answer_request st query parts)])"
    by (intro generate_answer_degrades) blast+
  show "\<exists>resp. search env st self query top_k True tr =
                 (Returns resp,
                  t2 @ [TimeRead, ChatCompletion (answer_request st query parts), TimeRead])
               \<and> response_query resp = query \<and> response_results resp = JList rs
               \<and> result_count resp = int (length rs)
               \<and> generated_answer resp = Some ''Error generating answer''"
    using emb sea h ga
    by (simp add: search_def seq_def time_time_def ret_def lift_def Let_def)
qed

lemma example_embed_text:
  "embed_text example_env txt t = (Returns [0], t @ [EncodeText txt])"
  by (simp add: embed_text_def example_env_def)

lemma example_endee_search:
  "endee_search example_env c idx qv k None t =
     (Returns (JList [JObj [(''id'', JStr ''a''), (''score'', JFloat (9 / 10)),
                            (''metadata'', JObj [(''content'', JStr ''some text'')])]]),
      t @ [HttpRequest
            \<lparr>req_method = ''POST'', req_url = client_base_url c @ ''/api/v1/index/'' @ idx @ ''/search'',
             req_json = Some (JObj [(''query'', JList (map JFloat qv)), (''k'', JInt k)]),
             req_headers = client_headers c, req_timeout = client_timeout c\<rparr>])"
  by (simp add: endee_search_def make_request_def catch_def seq_def session_request_def
      ret_def lift_def Let_def example_env_def)

lemma example_clients:
  "service_openai_client example_service = None"
  "service_openai_client example_service_llm = Some ''sk-key''"
  by (simp_all add: example_service_llm_def example_service_def RAGService_init_def default_settings_def)

lemma example_context:
  "context_loop example_env 1
     (take 3 [JObj [(''id'', JStr ''a''), (''score'', JFloat (9 / 10)),
                    (''metadata'', JObj [(''content'', JStr ''some text'')])]]) [] =
   Returns [''[Document 1]:\<newline>some text...'']"
  by (simp add: context_part_def)

lemma example_chat:
  "chat_create example_env t r = Inl (OtherException ''API error'')"
  by (simp add: example_env_def)

theorem search_answerer_degradation_witness:
  "(\<exists>resp tr'. search example_env default_settings example_service ''test query'' None True [] =
        (Returns resp, tr') \<and> generated_answer resp = None)
   \<and> (\<exists>resp tr'. search example_env default_settings example_service_llm ''test query'' None True [] =
        (Returns resp, tr') \<and> generated_answer resp = Some ''Error generating answer'')"
proof
  from search_answerer_degradation [OF example_embed_text example_endee_search,
      where query = "''test query''" and tr = "[]" and self = example_service
        and top_k = None and st = default_settings]
  show "\<exists>resp tr'. search example_env default_settings example_service ''test query'' None True [] =
        (Returns resp, tr') \<and> generated_answer resp = None"
    using example_clients by blast
next
  from search_answerer_degradation [OF example_embed_text example_endee_search,
      where query = "''test query''" and tr = "[]" and self = example_service_llm
        and top_k = None and st = default_settings
        and parts = "[''[Document 1]:\<newline>some text...'']"
        and e = "OtherException ''API error''"]
    example_clients example_context example_chat
  show "\<exists>resp tr'. search example_env default_settings example_service_llm ''test query'' None True [] =
        (Returns resp, tr') \<and> generated_answer resp = Some ''Error generating answer''"
    by (auto simp del: context_loop.simps)
qed

text \<open>
  Claim C5 as stated fails: with \<open>use_llm = True\<close> and no OpenAI client configured, the
  response carries no sentinel; its \<open>generated_answer\<close> is \<open>None\<close>.
\<close>

theorem search_without_answerer_counterexample:
  "service_openai_client example_service = None
   \<and> fst (search example_env default_settings example_service ''test query'' (Some 2) True []) =
     Returns
      \<lparr>response_query = ''test query'',
       response_results =
         JList [JObj [(''id'', JStr ''a''), (''score'', JFloat (9 / 10)),
                      (''metadata'', JObj [(''content'', JStr ''some text'')])]],
       generated_answer = None, retrieval_time_ms = 2000,
       total_time_ms = 5000, result_count = 1\<rparr>"
  by (simp add: search_def seq_def time_time_def example_embed_text example_endee_search
      ret_def lift_def Let_def example_clients)
     (simp add: example_env_def)

end
